theory Spec2Isabelle
  imports Main "HOL-Library.AList" "HOL-Library.Sublist" "HOL-Library.Word"
begin

section \<open>Errors\<close>

text \<open>
  Go's \<^verbatim>\<open>error\<close> values as a datatype.  \<^verbatim>\<open>io.EOF\<close> and
  \<^verbatim>\<open>io.ErrUnexpectedEOF\<close> are package-level values that the code compares by
  identity (\<^verbatim>\<open>err == io.EOF\<close>), so each is a constructor of its own; an error of
  another origin with any message is \<open>Other\<close>; \<open>Canceled\<close> and
  \<open>DeadlineExceeded\<close> are the two values of \<^verbatim>\<open>ctx.Err()\<close>.  \<open>New\<close> is \<^verbatim>\<open>errors.New\<close>,
  \<open>Wrap\<close> is \<^verbatim>\<open>errors.Wrap\<close>, \<open>Non200\<close> is the \<^verbatim>\<open>fmt.Errorf\<close> of the two
  run functions with the status code it formats, \<open>GraphErr\<close> is the type
  \<^verbatim>\<open>graphErr\<close> with its \<^verbatim>\<open>Message\<close>.
\<close>

record graphErr =
  Message :: string

datatype error =
    EOF
  | ErrUnexpectedEOF
  | Canceled
  | DeadlineExceeded
  | Other string
  | New string
  | Wrap error string
  | Non200 int
  | GraphErr graphErr

section \<open>Decimal formatting\<close>

text \<open>
  \<^verbatim>\<open>strconv.Itoa\<close> (and \<^verbatim>\<open>%d\<close>, \<^verbatim>\<open>%v\<close> on an int): the decimal digits, most
  significant first, with a leading minus sign for a negative number.
\<close>

definition digit :: "nat \<Rightarrow> char" where
  "digit d = char_of (48 + d)"

function digits :: "nat \<Rightarrow> string" where
  "digits n = (if n < 10 then [digit n] else digits (n div 10) @ [digit (n mod 10)])"
  by pat_completeness auto
termination
  by (relation "measure (\<lambda>n. n)") auto

declare digits.simps [simp del]

definition Itoa :: "int \<Rightarrow> string" where
  "Itoa i = (if i < 0 then CHR ''-'' # digits (nat (- i)) else digits (nat i))"

text \<open>
  The method \<^verbatim>\<open>Error()\<close> of each error value (\<open>Error\<close> itself is a field of
  \<^verbatim>\<open>SubscriptionPayload\<close> below).
\<close>

fun Error_text :: "error \<Rightarrow> string" where
  "Error_text EOF = ''EOF''"
| "Error_text ErrUnexpectedEOF = ''unexpected EOF''"
| "Error_text Canceled = ''context canceled''"
| "Error_text DeadlineExceeded = ''context deadline exceeded''"
| "Error_text (Other s) = s"
| "Error_text (New s) = s"
| "Error_text (Wrap e m) = m @ '': '' @ Error_text e"
| "Error_text (Non200 c) = ''graphql: server returned a non-200 status code: '' @ Itoa c"
| "Error_text (GraphErr g) = ''graphql: '' @ Message g"

section \<open>Requests\<close>

text \<open>
  \<^verbatim>\<open>File\<close> and \<^verbatim>\<open>Request\<close>.  The values of the variables are
  \<^verbatim>\<open>interface{}\<close> in the source and a type parameter here.  A Go map is a
  reference that may be nil, so \<open>vars\<close> is an optional map: \<open>None\<close> is the
  nil map of a new request.  The reader \<open>R\<close> of a file is what
  \<^verbatim>\<open>io.Copy\<close> gets out of it: its content, or the error of a failed read.
  \<^verbatim>\<open>http.Header\<close> is a map from a key to the list of its values, kept here
  as an association list.
\<close>

type_synonym header = "(string \<times> string list) list"

record File =
  Field :: string
  PartName :: string
  Name :: string
  ContentType :: string
  R :: "error + string"

record 'v Request =
  q :: string
  vars :: "(string \<rightharpoonup> 'v) option"
  files :: "File list"
  Header :: header

definition NewRequest :: "string \<Rightarrow> 'v Request" where
  "NewRequest s = \<lparr>q = s, vars = None, files = [], Header = []\<rparr>"

text \<open>\<^verbatim>\<open>Var\<close> makes the map when it is nil, and then stores the binding in it.\<close>

definition Var :: "'v Request \<Rightarrow> string \<Rightarrow> 'v \<Rightarrow> 'v Request" where
  "Var req key val =
     (let req1 = (if vars req = None then req\<lparr>vars := Some Map.empty\<rparr> else req)
      in req1\<lparr>vars := map_option (\<lambda>m. m(key \<mapsto> val)) (vars req1)\<rparr>)"

definition Vars :: "'v Request \<Rightarrow> (string \<rightharpoonup> 'v) option" where
  "Vars req = vars req"

definition Files :: "'v Request \<Rightarrow> File list" where
  "Files req = files req"

definition Query :: "'v Request \<Rightarrow> string" where
  "Query req = q req"

text \<open>The method \<^verbatim>\<open>File\<close> of a request: the part name is the number of files so far.\<close>

definition Request_File :: "'v Request \<Rightarrow> string \<Rightarrow> string \<Rightarrow> (error + string) \<Rightarrow> string \<Rightarrow> 'v Request" where
  "Request_File req fieldname filename r contentType =
     (let oriLen = length (files req)
      in req\<lparr>files := files req @
           [\<lparr>Field = fieldname, PartName = Itoa (int oriLen), Name = filename,
             ContentType = contentType, R = r\<rparr>]\<rparr>)"

section \<open>The stateless client\<close>

text \<open>
  \<^verbatim>\<open>Client\<close>.  The \<^verbatim>\<open>httpClient\<close> is what its method \<^verbatim>\<open>Do\<close> answers to a
  request: an error, or a response with its status code and with what
  \<^verbatim>\<open>io.Copy\<close> reads from its body.  \<^verbatim>\<open>Log\<close> only receives text and is left out.
\<close>

text \<open>
  A part of a multipart form: a field with its name and value, or a file with the
  name and the file name of its disposition, its content type and its content.
\<close>

datatype part =
    FieldPart string string
  | FilePart string string string string

record http_request =
  Method :: string
  URL :: string
  Close :: bool
  Hdr :: header
  Body :: string

record http_response =
  StatusCode :: int
  ResBody :: "error + string"

record graphResponse =
  Errors :: "graphErr list"

record Client =
  endpoint :: string
  httpClient :: "http_request \<Rightarrow> error + http_response"
  useMultipartForm :: bool
  closeReq :: bool
  buildHeaderFunc :: "(string \<Rightarrow> header) option"

text \<open>
  What the libraries do, as parameters of the model: \<^verbatim>\<open>json.Marshal\<close> of a request
  body, of the file map and of a raw payload, \<^verbatim>\<open>http.NewRequest\<close> (which refuses a malformed URL),
  the multipart writer (its boundary, the bytes it produces for a list of parts, and
  the errors its calls may return) and the JSON decoding of a response body.  The
  decoder is given the address of the pointer \<^verbatim>\<open>gr\<close>
  (\<^verbatim>\<open>Decode(&gr)\<close>): it returns an error, or it fills the envelope that
  \<^verbatim>\<open>gr\<close> points to, or, for a body that is the JSON text \<^verbatim>\<open>null\<close>, it sets
  \<^verbatim>\<open>gr\<close> itself to nil and returns no error, which is \<open>Inr None\<close>.  The field
  \<^verbatim>\<open>Data\<close> of the response is the caller's own object and plays no role in what
  \<^verbatim>\<open>Run\<close> returns.
\<close>

record 'v lib =
  json_body :: "string \<Rightarrow> (string \<rightharpoonup> 'v) option \<Rightarrow> error + string"
  json_map :: "header \<Rightarrow> error + string"
  json_raw :: "string \<Rightarrow> string"
  NewRequest_err :: "string \<Rightarrow> error option"
  WriteField_err :: "string \<Rightarrow> error option"
  CreatePart_err :: "string \<Rightarrow> error option"
  writer_Close_err :: "error option"
  FormDataContentType :: string
  form_bytes :: "part list \<Rightarrow> string"
  json_decode :: "string \<Rightarrow> error + graphResponse option"

text \<open>
  The outcome of a call of \<^verbatim>\<open>Run\<close>: the error it returns (\<open>None\<close> is nil),
  the requests it handed to \<^verbatim>\<open>httpClient.Do\<close>, and whether the call panicked
  instead of returning (then there is no error returned, and \<open>err\<close> is \<open>None\<close>).
\<close>

record run_result =
  err :: "error option"
  sent :: "http_request list"
  panicked :: bool

definition failed :: "error \<Rightarrow> run_result" where
  "failed e = \<lparr>err = Some e, sent = [], panicked = False\<rparr>"

definition Header_Set :: "header \<Rightarrow> string \<Rightarrow> string \<Rightarrow> header" where
  "Header_Set h key val = AList.update key [val] h"

definition Header_Add :: "header \<Rightarrow> string \<Rightarrow> string \<Rightarrow> header" where
  "Header_Add h key val =
     AList.update key ((case map_of h key of None \<Rightarrow> [] | Some vs \<Rightarrow> vs) @ [val]) h"

text \<open>The two nested loops that add every value of every key of one header to another.\<close>

definition add_all :: "header \<Rightarrow> header \<Rightarrow> header" where
  "add_all h extra =
     fold (\<lambda>(key, vals) h1. fold (\<lambda>val h2. Header_Add h2 key val) vals h1) extra h"

text \<open>
  Sending the request and reading the answer: the text from \<^verbatim>\<open>c.httpClient.Do(r)\<close>
  to the end is the same in \<^verbatim>\<open>runWithJSON\<close> (lines 140 to 160) and in
  \<^verbatim>\<open>runWithPostFields\<close> (lines 251 to 271).  When the decoder has set
  \<^verbatim>\<open>gr\<close> to nil, \<^verbatim>\<open>len(gr.Errors)\<close> dereferences a nil pointer and panics.
\<close>

definition do_and_decode :: "'v lib \<Rightarrow> Client \<Rightarrow> http_request \<Rightarrow> run_result" where
  "do_and_decode L c r =
     (case httpClient c r of
        Inl e \<Rightarrow> \<lparr>err = Some e, sent = [r], panicked = False\<rparr>
      | Inr res \<Rightarrow>
         (case ResBody res of
            Inl e \<Rightarrow> \<lparr>err = Some (Wrap e ''reading body''), sent = [r], panicked = False\<rparr>
          | Inr buf \<Rightarrow>
             (case json_decode L buf of
                Inl e \<Rightarrow>
                  (if StatusCode res \<noteq> 200
                   then \<lparr>err = Some (Non200 (StatusCode res)), sent = [r], panicked = False\<rparr>
                   else \<lparr>err = Some (Wrap e ''decoding response''), sent = [r],
                          panicked = False\<rparr>)
              | Inr None \<Rightarrow> \<lparr>err = None, sent = [r], panicked = True\<rparr>
              | Inr (Some gr) \<Rightarrow>
                  (if length (Errors gr) > 0
                   then \<lparr>err = Some (GraphErr (Errors gr ! 0)), sent = [r], panicked = False\<rparr>
                   else \<lparr>err = None, sent = [r], panicked = False\<rparr>))))"

text \<open>\<^verbatim>\<open>json.NewEncoder(&requestBody).Encode\<close>: the marshalled value and a newline.\<close>

definition Encode :: "'v lib \<Rightarrow> string \<Rightarrow> (string \<rightharpoonup> 'v) option \<Rightarrow> error + string" where
  "Encode L query vs =
     (case json_body L query vs of Inl e \<Rightarrow> Inl e | Inr s \<Rightarrow> Inr (s @ [CHR 0x0A]))"

definition runWithJSON :: "'v lib \<Rightarrow> Client \<Rightarrow> 'v Request \<Rightarrow> run_result" where
  "runWithJSON L c req =
     (case Encode L (q req) (vars req) of
        Inl e \<Rightarrow> failed (Wrap e ''encode body'')
      | Inr requestBody \<Rightarrow>
         (case NewRequest_err L (endpoint c) of
            Some e \<Rightarrow> failed e
          | None \<Rightarrow>
             (let h0 = Header_Set [] ''Content-Type'' ''application/json; charset=utf-8'';
                  h1 = Header_Set h0 ''Accept'' ''application/json; charset=utf-8'';
                  h2 = add_all h1 (Header req);
                  r = \<lparr>Method = ''POST'', URL = endpoint c, Close = closeReq c,
                       Hdr = h2, Body = requestBody\<rparr>
              in do_and_decode L c r)))"

text \<open>\<^verbatim>\<open>escapeQuotes\<close>: a backslash before every backslash and every double quote.\<close>

definition escapeQuotes :: "string \<Rightarrow> string" where
  "escapeQuotes s =
     concat (map (\<lambda>ch. if ch = CHR 0x5C then [CHR 0x5C, CHR 0x5C]
                         else if ch = CHR 0x22 then [CHR 0x5C, CHR 0x22] else [ch]) s)"

text \<open>
  \<^verbatim>\<open>createFormFile\<close>: the part's two headers, and then the writer's
  \<^verbatim>\<open>CreatePart\<close>.  The part is returned with the disposition's name and file
  name, its content type, and no content yet.
\<close>

definition createFormFile ::
  "'v lib \<Rightarrow> string \<Rightarrow> string \<Rightarrow> string \<Rightarrow> error + (string \<Rightarrow> part)" where
  "createFormFile L fieldname filename contentType =
     (let ct = (if contentType \<noteq> [] then contentType else ''application/octet-stream'')
      in case CreatePart_err L fieldname of
           Some e \<Rightarrow> Inl e
         | None \<Rightarrow> Inr (FilePart (escapeQuotes fieldname) (escapeQuotes filename) ct))"

text \<open>The loop over the files of the request that writes one part for each.\<close>

fun write_files :: "'v lib \<Rightarrow> File list \<Rightarrow> part list \<Rightarrow> error + part list" where
  "write_files L [] ps = Inr ps"
| "write_files L (f # fs) ps =
     (case createFormFile L (PartName f) (Name f) (ContentType f) of
        Inl e \<Rightarrow> Inl (Wrap e ''create form file'')
      | Inr mk \<Rightarrow>
         (case R f of
            Inl e \<Rightarrow> Inl (Wrap e ''preparing file'')
          | Inr content \<Rightarrow> write_files L fs (ps @ [mk content])))"

text \<open>
  \<^verbatim>\<open>runWithPostFields\<close>, in two parts.  First the form (lines 183 to 223): the
  field \<^verbatim>\<open>operations\<close>, the field \<^verbatim>\<open>map\<close> when there are files, one part for
  each file, and the writer's \<^verbatim>\<open>Close\<close>.
\<close>

definition write_form :: "'v lib \<Rightarrow> 'v Request \<Rightarrow> error + part list" where
  "write_form L req =
     (case json_body L (q req) (vars req) of
        Inl e \<Rightarrow> Inl (Wrap e ''json marshal failed'')
      | Inr reqStr \<Rightarrow>
     (case WriteField_err L ''operations'' of
        Some e \<Rightarrow> Inl (Wrap e ''write query field'')
      | None \<Rightarrow>
     (case (if length (files req) > 0
            then (let mapPart = fold (\<lambda>f m. AList.update (PartName f) [Field f] m) (files req) []
                  in case json_map L mapPart of
                       Inl e \<Rightarrow> Inl (Wrap e ''json marshal failed'')
                     | Inr mapPartStr \<Rightarrow>
                        (case WriteField_err L ''map'' of
                           Some e \<Rightarrow> Inl (Wrap e ''write query field'')
                         | None \<Rightarrow> Inr [FieldPart ''operations'' reqStr, FieldPart ''map'' mapPartStr]))
            else Inr [FieldPart ''operations'' reqStr]) of
        Inl e \<Rightarrow> Inl e
      | Inr ps0 \<Rightarrow>
     (case write_files L (files req) ps0 of
        Inl e \<Rightarrow> Inl e
      | Inr ps \<Rightarrow>
     (case writer_Close_err L of
        Some e \<Rightarrow> Inl (Wrap e ''close writer'')
      | None \<Rightarrow> Inr ps)))))"

text \<open>Then the request (lines 224 to 272).\<close>

definition runWithPostFields :: "'v lib \<Rightarrow> Client \<Rightarrow> 'v Request \<Rightarrow> run_result" where
  "runWithPostFields L c req =
     (case write_form L req of
        Inl e \<Rightarrow> failed e
      | Inr ps \<Rightarrow>
     (case NewRequest_err L (endpoint c) of
        Some e \<Rightarrow> failed e
      | None \<Rightarrow>
         (let requestBody = form_bytes L ps;
              h0 = Header_Set [] ''Content-Type'' (FormDataContentType L);
              h1 = Header_Set h0 ''Accept'' ''application/json; charset=utf-8'';
              h2 = add_all h1 (Header req);
              h3 = (case buildHeaderFunc c of
                      None \<Rightarrow> h2
                    | Some f \<Rightarrow> add_all h2 (f requestBody));
              r = \<lparr>Method = ''POST'', URL = endpoint c, Close = closeReq c,
                   Hdr = h3, Body = requestBody\<rparr>
          in do_and_decode L c r)))"

text \<open>
  \<^verbatim>\<open>Run\<close>.  The context is what the \<^verbatim>\<open>select\<close> sees: \<open>Some e\<close> when
  \<^verbatim>\<open>ctx.Done()\<close> is ready, with \<open>e\<close> the value of \<^verbatim>\<open>ctx.Err()\<close>, and
  \<open>None\<close> when the \<^verbatim>\<open>default\<close> branch is taken.
\<close>

definition Run :: "'v lib \<Rightarrow> Client \<Rightarrow> error option \<Rightarrow> 'v Request \<Rightarrow> run_result" where
  "Run L c ctx req =
     (case ctx of
        Some e \<Rightarrow> failed e
      | None \<Rightarrow>
         (if length (files req) > 0 \<and> \<not> useMultipartForm c
          then failed (New ''cannot send files with PostFields option'')
          else if useMultipartForm c then runWithPostFields L c req
          else runWithJSON L c req))"

section \<open>The subscription engine: frames and the transport\<close>

text \<open>The message types are strings; the constants are those of lines 397 to 408.\<close>

definition gql_connection_init :: string where "gql_connection_init = ''connection_init''"
definition gql_start :: string where "gql_start = ''start''"
definition gql_stop :: string where "gql_stop = ''stop''"
definition gql_connection_ack :: string where "gql_connection_ack = ''connection_ack''"
definition gql_connection_terminate :: string where
  "gql_connection_terminate = ''connection_terminate''"
definition gql_connection_error :: string where "gql_connection_error = ''connection_error''"
definition gql_data :: string where "gql_data = ''data''"
definition gql_error :: string where "gql_error = ''error''"
definition gql_complete :: string where "gql_complete = ''GQL_COMPLETE''"
definition gql_connection_keep_alive :: string where "gql_connection_keep_alive = ''ka''"

text \<open>
  \<^verbatim>\<open>subscriptionMessage\<close>: the payload and the identifier are pointers, \<open>None\<close>
  when nil; a raw JSON payload is its text.
\<close>

record subscriptionMessage =
  Payload :: "string option"
  Id :: "string option"
  Type :: string

text \<open>
  A frame as it arrives: a JSON object in which each of the three members is absent,
  \<^verbatim>\<open>null\<close>, or has a value.  \<^verbatim>\<open>ReadJSON(&msg)\<close> decodes it into the message it
  is given: an absent member leaves the field as it was, \<^verbatim>\<open>null\<close> sets a pointer
  to nil and leaves a string alone, a value is stored.
\<close>

datatype 'a member = Absent | Null | Val 'a

record frame =
  payload :: "string member"
  ident :: "string member"
  type :: "string member"

definition decode_into :: "subscriptionMessage \<Rightarrow> frame \<Rightarrow> subscriptionMessage" where
  "decode_into msg f =
     \<lparr>Payload = (case payload f of Absent \<Rightarrow> Payload msg | Null \<Rightarrow> None | Val p \<Rightarrow> Some p),
      Id = (case ident f of Absent \<Rightarrow> Id msg | Null \<Rightarrow> None | Val i \<Rightarrow> Some i),
      Type = (case type f of Val t \<Rightarrow> t | _ \<Rightarrow> Type msg)\<rparr>"

text \<open>The zero value of \<^verbatim>\<open>var msg subscriptionMessage\<close>.\<close>

definition zero_msg :: subscriptionMessage where
  "zero_msg = \<lparr>Payload = None, Id = None, Type = []\<rparr>"

text \<open>
  The websocket connection, as far as the engine sees it.  \<open>inbox\<close> is what the
  coming calls of \<^verbatim>\<open>ReadJSON\<close> produce, a frame or an error each; a read with
  nothing left waits for ever.  \<open>wres\<close> is what the coming calls of
  \<^verbatim>\<open>WriteJSON\<close> return (success once the list is used up), and \<open>wlog\<close> records
  every call of \<^verbatim>\<open>WriteJSON\<close> with the message it was given and what it returned.
  \<open>cres\<close> is what \<^verbatim>\<open>Close\<close> returns.  Once the connection is closed, reads,
  writes and a second close fail.
\<close>

datatype read_result = Frame frame | ReadErr error

record conn =
  inbox :: "read_result list"
  wres :: "error option list"
  wlog :: "(subscriptionMessage \<times> error option) list"
  cres :: "error option"
  closed :: bool

definition ErrClosed :: error where
  "ErrClosed = Other ''use of closed network connection''"

definition WriteJSON :: "conn \<Rightarrow> subscriptionMessage \<Rightarrow> error option \<times> conn" where
  "WriteJSON c msg =
     (let r = (if closed c then Some ErrClosed
               else case wres c of [] \<Rightarrow> None | x # _ \<Rightarrow> x)
      in (r, c\<lparr>wres := tl (wres c), wlog := wlog c @ [(msg, r)]\<rparr>))"

text \<open>\<open>None\<close>: the read never returns.\<close>

definition ReadJSON :: "conn \<Rightarrow> (read_result \<times> conn) option" where
  "ReadJSON c =
     (if closed c then Some (ReadErr ErrClosed, c)
      else case inbox c of
             [] \<Rightarrow> None
           | x # xs \<Rightarrow> Some (x, c\<lparr>inbox := xs\<rparr>))"

definition conn_Close :: "conn \<Rightarrow> error option \<times> conn" where
  "conn_Close c = (if closed c then (Some ErrClosed, c) else (cres c, c\<lparr>closed := True\<rparr>))"

section \<open>The subscription engine: state\<close>

text \<open>
  A \<^verbatim>\<open>Subscription\<close> is a channel of \<^verbatim>\<open>SubscriptionPayload\<close> made with no
  buffer.  Channels are shared between the engine and its callers, so they live in a
  store and are named by reference.  Of a channel the model keeps the payloads sent
  on it, in order, and whether it is closed; a send on it is taken by its reader (a
  send with no reader would wait, which the model leaves out).
\<close>

record SubscriptionPayload =
  Data :: "string option"
  Error :: "string option"

record chan =
  items :: "SubscriptionPayload list"
  chclosed :: bool

text \<open>
  \<^verbatim>\<open>SubscriptionClient\<close>: the connection (a pointer, \<open>None\<close> when nil), the
  registry \<^verbatim>\<open>subs\<close> (a \<^verbatim>\<open>sync.Map\<close> from identifier to channel, kept as an
  association list; \<^verbatim>\<open>Range\<close> visits it in the list's order) and the counter
  \<^verbatim>\<open>subIdGen\<close>, a Go \<^verbatim>\<open>int\<close> of 64 bits.  \<^verbatim>\<open>subBuffer\<close> is never used.
  With them travel the store of channels (\<open>chans\<close>, and the next free reference
  \<open>nchans\<close>) and \<open>running\<close>: whether the goroutine of \<^verbatim>\<open>subWork\<close> is alive,
  which is what \<^verbatim>\<open>subWait\<close> counts.
\<close>

record SubscriptionClient =
  subWebsocket :: "conn option"
  subs :: "(string \<times> nat) list"
  subIdGen :: "64 word"
  chans :: "nat \<Rightarrow> chan"
  nchans :: nat
  running :: bool

text \<open>
  How a call ends: it returns; it panics (which ends the process, no goroutine
  recovers); the process exits in \<^verbatim>\<open>log.Fatalf\<close>; or it waits for ever.
\<close>

datatype 'a outcome = Return 'a | Panic | Exit | Block

text \<open>A send on a closed channel and the close of a closed channel panic: \<open>None\<close>.\<close>

definition chan_send :: "SubscriptionClient \<Rightarrow> nat \<Rightarrow> SubscriptionPayload \<Rightarrow> SubscriptionClient option" where
  "chan_send st ch x =
     (if chclosed (chans st ch) then None
      else Some (st\<lparr>chans := (chans st)(ch := (chans st ch)\<lparr>items := items (chans st ch) @ [x]\<rparr>)\<rparr>))"

definition chan_close :: "SubscriptionClient \<Rightarrow> nat \<Rightarrow> SubscriptionClient option" where
  "chan_close st ch =
     (if chclosed (chans st ch) then None
      else Some (st\<lparr>chans := (chans st)(ch := (chans st ch)\<lparr>chclosed := True\<rparr>)\<rparr>))"

definition make_chan :: "SubscriptionClient \<Rightarrow> nat \<times> SubscriptionClient" where
  "make_chan st =
     (nchans st,
      st\<lparr>chans := (chans st)(nchans st := \<lparr>items = [], chclosed = False\<rparr>),
         nchans := nchans st + 1\<rparr>)"

section \<open>The dispatch loop\<close>

text \<open>
  The \<^verbatim>\<open>switch\<close> of lines 512 to 528 on one decoded message.  \<^verbatim>\<open>*msg.Id\<close>
  panics on a nil identifier.  \<^verbatim>\<open>c.subs.Load(id)\<close> answers a nil interface for
  an identifier that is not in the registry; its second result is dropped, and the
  type assertion \<^verbatim>\<open>ch.(Subscription)\<close> on the nil interface panics.  \<open>None\<close>
  is the panic.
\<close>

definition dispatch :: "SubscriptionClient \<Rightarrow> subscriptionMessage \<Rightarrow> SubscriptionClient option" where
  "dispatch st msg =
     (if Type msg = gql_error then
        (case Id msg of
           None \<Rightarrow> None
         | Some i \<Rightarrow>
            (case map_of (subs st) i of
               None \<Rightarrow> None
             | Some ch \<Rightarrow> chan_send st ch \<lparr>Data = None, Error = Payload msg\<rparr>))
      else if Type msg = gql_data then
        (case Id msg of
           None \<Rightarrow> None
         | Some i \<Rightarrow>
            (case map_of (subs st) i of
               None \<Rightarrow> None
             | Some ch \<Rightarrow> chan_send st ch \<lparr>Data = Payload msg, Error = None\<rparr>))
      else if Type msg = gql_complete then
        (case Id msg of
           None \<Rightarrow> None
         | Some i \<Rightarrow>
            (case map_of (subs st) i of
               None \<Rightarrow> None
             | Some ch \<Rightarrow>
                (case chan_close st ch of
                   None \<Rightarrow> None
                 | Some st1 \<Rightarrow> Some (st1\<lparr>subs := AList.delete i (subs st1)\<rparr>))))
      else if Type msg = gql_connection_keep_alive then Some st
      else Some st)"

text \<open>
  One turn of the \<^verbatim>\<open>for\<close> loop of \<^verbatim>\<open>subWork\<close>: it goes on with a new
  state (\<open>Next\<close>), it leaves the loop by \<^verbatim>\<open>return\<close> (\<open>Leave\<close>), it panics, it
  reaches \<^verbatim>\<open>log.Fatalf\<close>, which ends the process before the \<^verbatim>\<open>return\<close> that
  follows it and without running any deferred call (\<open>Fatal\<close>), or its read never
  returns (\<open>Waits\<close>).
\<close>

datatype turn = Next SubscriptionClient | Leave SubscriptionClient | Panics | Fatal | Waits

definition with_conn :: "SubscriptionClient \<Rightarrow> conn \<Rightarrow> SubscriptionClient" where
  "with_conn st c = st\<lparr>subWebsocket := Some c\<rparr>"

definition iteration :: "SubscriptionClient \<Rightarrow> turn" where
  "iteration st =
     (case subWebsocket st of
        None \<Rightarrow> Panics
      | Some c \<Rightarrow>
         (case ReadJSON c of
            None \<Rightarrow> Waits
          | Some (ReadErr e, c1) \<Rightarrow>
              (if e = ErrUnexpectedEOF \<or> e = EOF then Leave (with_conn st c1)
               else if suffix (Error_text ErrUnexpectedEOF) (Error_text e)
               then Leave (with_conn st c1)
               else Fatal)
          | Some (Frame f, c1) \<Rightarrow>
              (case dispatch (with_conn st c1) (decode_into zero_msg f) of
                 None \<Rightarrow> Panics
               | Some st1 \<Rightarrow> Next st1)))"

text \<open>What is left to read on the connection of an engine.\<close>

definition pending :: "SubscriptionClient \<Rightarrow> nat" where
  "pending st = (case subWebsocket st of None \<Rightarrow> 0 | Some c \<Rightarrow> length (inbox c))"

text \<open>
  The deferred \<^verbatim>\<open>c.subs.Range\<close> that closes the channel of every entry of the
  registry; the close of a channel that is closed already panics (\<open>None\<close>).
\<close>

fun close_all :: "SubscriptionClient \<Rightarrow> (string \<times> nat) list \<Rightarrow> SubscriptionClient option" where
  "close_all st [] = Some st"
| "close_all st ((i, ch) # rest) =
     (case chan_close st ch of None \<Rightarrow> None | Some st1 \<Rightarrow> close_all st1 rest)"

text \<open>
  The two deferred calls, run when the loop is left by \<^verbatim>\<open>return\<close>: the registry's
  channels are closed, then \<^verbatim>\<open>subWait.Done()\<close>.
\<close>

definition deferred :: "SubscriptionClient \<Rightarrow> SubscriptionClient outcome" where
  "deferred st =
     (case close_all st (subs st) of
        None \<Rightarrow> Panic
      | Some st1 \<Rightarrow> Return (st1\<lparr>running := False\<rparr>))"

lemma dispatch_conn: "dispatch st msg = Some st1 \<Longrightarrow> subWebsocket st1 = subWebsocket st"
  by (auto simp: dispatch_def chan_send_def chan_close_def split: if_splits option.splits)

lemma iteration_pending: "iteration st = Next st1 \<Longrightarrow> pending st1 < pending st"
  by (auto simp: iteration_def pending_def ReadJSON_def with_conn_def
      split: option.splits if_splits list.splits read_result.splits dest!: dispatch_conn)

text \<open>
  \<^verbatim>\<open>subWork\<close>: the loop, and the deferred calls when it is left by
  \<^verbatim>\<open>return\<close>.  A panic ends the process once the deferred calls have run.
\<close>

function subWork :: "SubscriptionClient \<Rightarrow> SubscriptionClient outcome" where
  "subWork st =
     (case iteration st of
        Next st1 \<Rightarrow> subWork st1
      | Leave st1 \<Rightarrow> deferred st1
      | Panics \<Rightarrow> Panic
      | Fatal \<Rightarrow> Exit
      | Waits \<Rightarrow> Block)"
  by pat_completeness auto
termination
  by (relation "measure pending") (auto simp: iteration_pending)

declare subWork.simps [simp del]

section \<open>The lifecycle API\<close>

text \<open>
  \<^verbatim>\<open>Subscribe\<close>.  It returns the channel or an error, and the engine is changed
  as far as the call got.  \<^verbatim>\<open>c.subWebsocket.WriteJSON\<close> on a nil connection
  panics.
\<close>

definition Subscribe ::
  "'v lib \<Rightarrow> SubscriptionClient \<Rightarrow> 'v Request \<Rightarrow> ((error + nat) \<times> SubscriptionClient) outcome" where
  "Subscribe L st req =
     (case Encode L (q req) (vars req) of
        Inl e \<Rightarrow> Return (Inl (Wrap e ''encode body''), st)
      | Inr requestBody \<Rightarrow>
         (let i = Itoa (sint (subIdGen st));
              st1 = st\<lparr>subIdGen := subIdGen st + 1\<rparr>;
              sReq = \<lparr>Payload = Some requestBody, Id = Some i, Type = gql_start\<rparr>;
              (subChan, st2) = make_chan st1;
              st3 = st2\<lparr>subs := AList.update i subChan (subs st2)\<rparr>
          in case subWebsocket st3 of
               None \<Rightarrow> Panic
             | Some c \<Rightarrow>
                (case WriteJSON c sReq of
                   (Some e, c1) \<Rightarrow> Return (Inl e, with_conn st3 c1)
                 | (None, c1) \<Rightarrow> Return (Inr subChan, with_conn st3 c1))))"

text \<open>
  \<^verbatim>\<open>Unsubscribe\<close>: the first entry of the registry whose channel is the given
  one gets a \<^verbatim>\<open>stop\<close> frame, the result of the write is dropped, and the
  \<^verbatim>\<open>Range\<close> ends there.
\<close>

definition Unsubscribe :: "SubscriptionClient \<Rightarrow> nat \<Rightarrow> SubscriptionClient outcome" where
  "Unsubscribe st sub =
     (case find (\<lambda>(key, val). val = sub) (subs st) of
        None \<Rightarrow> Return st
      | Some (i, val) \<Rightarrow>
         (case subWebsocket st of
            None \<Rightarrow> Panic
          | Some c \<Rightarrow>
             Return (with_conn st (snd (WriteJSON c \<lparr>Payload = None, Id = Some i, Type = gql_stop\<rparr>)))))"

text \<open>
  \<^verbatim>\<open>Close\<close> of the engine (\<open>Close\<close> alone is the field of an HTTP request
  above).  \<^verbatim>\<open>c.subWait.Wait()\<close> returns when the goroutine of
  \<^verbatim>\<open>subWork\<close> has ended: at once when it is not running, and otherwise when the
  loop has worked through what the connection still delivers.
\<close>

definition Close_engine :: "SubscriptionClient \<Rightarrow> (error option \<times> SubscriptionClient) outcome" where
  "Close_engine st =
     (case subWebsocket st of
        None \<Rightarrow> Return (None, st)
      | Some c \<Rightarrow>
         (case WriteJSON c \<lparr>Payload = None, Id = None, Type = gql_connection_terminate\<rparr> of
            (Some e, c1) \<Rightarrow> Return (Some e, with_conn st c1)
          | (None, c1) \<Rightarrow>
             (case (if running st then subWork (with_conn st c1) else Return (with_conn st c1)) of
                Panic \<Rightarrow> Panic
              | Exit \<Rightarrow> Exit
              | Block \<Rightarrow> Block
              | Return st1 \<Rightarrow>
                 (case subWebsocket st1 of
                    None \<Rightarrow> Panic
                  | Some c2 \<Rightarrow>
                     (case conn_Close c2 of
                        (Some e, c3) \<Rightarrow> Return (Some e, with_conn st1 c3)
                      | (None, c3) \<Rightarrow> Return (None, with_conn st1 c3))))))"

section \<open>The handshake\<close>

text \<open>\<^verbatim>\<open>strings.Replace(s, old, new, 1)\<close>.\<close>

fun replace_first :: "string \<Rightarrow> string \<Rightarrow> string \<Rightarrow> string" where
  "replace_first old new [] = (if old = [] then new else [])"
| "replace_first old new (ch # cs) =
     (if prefix old (ch # cs) then new @ drop (length old) (ch # cs)
      else ch # replace_first old new cs)"

text \<open>
  \<^verbatim>\<open>Client.SubscriptionClient\<close>.  The dialer is a parameter: from the URL and the
  header it answers a connection (or nil) and an error (or nil).  The result is what
  the call returns, an error or the new engine, and beside it the connection that was
  dialed as the call leaves it, so that one can see whether it was closed.  The
  message that \<^verbatim>\<open>ReadJSON\<close> decodes into is the \<^verbatim>\<open>connection_init\<close> message that
  was just written.
\<close>

definition newSubscriptionClient :: "SubscriptionClient" where
  "newSubscriptionClient =
     \<lparr>subWebsocket = None, subs = [], subIdGen = 0,
      chans = (\<lambda>_. \<lparr>items = [], chclosed = False\<rparr>), nchans = 0, running = False\<rparr>"

definition Client_SubscriptionClient ::
  "'v lib \<Rightarrow> (string \<Rightarrow> header \<Rightarrow> conn option \<times> error option) \<Rightarrow> Client \<Rightarrow> header
     \<Rightarrow> (error + SubscriptionClient) outcome \<times> conn option" where
  "Client_SubscriptionClient L dial c hdr =
     (let h1 = Header_Set hdr ''Sec-WebSocket-Protocol'' ''graphql-ws'';
          h2 = Header_Set h1 ''Content-Type'' ''application/json''
      in case dial (replace_first ''http'' ''ws'' (endpoint c)) h2 of
           (cn, Some e) \<Rightarrow>
              (case cn of
                 None \<Rightarrow> (Return (Inl e), None)
               | Some c0 \<Rightarrow> (Return (Inl e), Some (snd (conn_Close c0))))
         | (None, None) \<Rightarrow> (Panic, None)
         | (Some c0, None) \<Rightarrow>
            (let msg = \<lparr>Payload = Some ''{}'', Id = None, Type = gql_connection_init\<rparr>
             in case WriteJSON c0 msg of
                  (Some e, c1) \<Rightarrow> (Return (Inl e), Some c1)
                | (None, c1) \<Rightarrow>
                   (case ReadJSON c1 of
                      None \<Rightarrow> (Block, Some c1)
                    | Some (ReadErr e, c2) \<Rightarrow> (Return (Inl e), Some c2)
                    | Some (Frame f, c2) \<Rightarrow>
                       (let msg1 = decode_into msg f
                        in if Type msg1 \<noteq> gql_connection_ack then
                             (let c3 = snd (conn_Close c2)
                              in if Type msg1 = gql_connection_error then
                                   (case Payload msg1 of
                                      None \<Rightarrow> (Panic, Some c3)
                                    | Some p \<Rightarrow> (Return (Inl (New (json_raw L p))), Some c3))
                                 else (Return (Inl (New ''server-did-not-acknowledge'')), Some c3))
                           else
                             (Return (Inr (newSubscriptionClient
                                \<lparr>subWebsocket := Some c2, running := True\<rparr>)), Some c2)))))"

section \<open>Runs of an engine\<close>

text \<open>
  The caller and the loop take turns on one engine: a call of \<^verbatim>\<open>Subscribe\<close>, of
  \<^verbatim>\<open>Unsubscribe\<close> or of \<^verbatim>\<open>Close\<close>, or one turn of the loop of \<^verbatim>\<open>subWork\<close>
  (nothing happens when the goroutine has ended or when its read has nothing to
  deliver yet).  A run goes on as long as each step returns.
\<close>

datatype 'v op = Sub "'v Request" | Unsub nat | Turn | CloseOp

definition turn_step :: "SubscriptionClient \<Rightarrow> SubscriptionClient outcome" where
  "turn_step st =
     (if running st then
        (case iteration st of
           Next st1 \<Rightarrow> Return st1
         | Leave st1 \<Rightarrow> deferred st1
         | Panics \<Rightarrow> Panic
         | Fatal \<Rightarrow> Exit
         | Waits \<Rightarrow> Return st)
      else Return st)"

definition discard :: "('a \<times> SubscriptionClient) outcome \<Rightarrow> SubscriptionClient outcome" where
  "discard r = (case r of Return (x, st) \<Rightarrow> Return st | Panic \<Rightarrow> Panic | Exit \<Rightarrow> Exit | Block \<Rightarrow> Block)"

fun exec :: "'v lib \<Rightarrow> SubscriptionClient \<Rightarrow> 'v op \<Rightarrow> SubscriptionClient outcome" where
  "exec L st (Sub req) = discard (Subscribe L st req)"
| "exec L st (Unsub ch) = Unsubscribe st ch"
| "exec L st Turn = turn_step st"
| "exec L st CloseOp = discard (Close_engine st)"

fun run :: "'v lib \<Rightarrow> SubscriptionClient \<Rightarrow> 'v op list \<Rightarrow> SubscriptionClient outcome" where
  "run L st [] = Return st"
| "run L st (x # xs) =
     (case exec L st x of
        Return st1 \<Rightarrow> run L st1 xs
      | Panic \<Rightarrow> Panic
      | Exit \<Rightarrow> Exit
      | Block \<Rightarrow> Block)"

text \<open>
  The identifiers that an engine has assigned so far, in order: those of the
  \<^verbatim>\<open>start\<close> frames it has handed to \<^verbatim>\<open>WriteJSON\<close>.
\<close>

definition start_id :: "subscriptionMessage \<times> error option \<Rightarrow> string option" where
  "start_id x = (if Type (fst x) = gql_start then Id (fst x) else None)"

definition assigned :: "SubscriptionClient \<Rightarrow> string list" where
  "assigned st =
     (case subWebsocket st of
        None \<Rightarrow> []
      | Some c \<Rightarrow> List.map_filter start_id (wlog c))"

text \<open>The \<^verbatim>\<open>connection_terminate\<close> frames that were handed to \<^verbatim>\<open>WriteJSON\<close>.\<close>

definition terminates :: "conn \<Rightarrow> nat" where
  "terminates c = length (filter (\<lambda>x. Type (fst x) = gql_connection_terminate) (wlog c))"

text \<open>
  The calls of \<^verbatim>\<open>Subscribe\<close> in a run, and the identifiers that a counter of
  value \<open>g\<close> yields in \<open>n\<close> steps: the decimal text of the counter as a signed
  number, the counter going up by one, with wrap-around, at each step.
\<close>

fun is_Sub :: "'v op \<Rightarrow> bool" where
  "is_Sub (Sub req) = True"
| "is_Sub x = False"

definition subscribes :: "'v op list \<Rightarrow> nat" where
  "subscribes ops = length (filter is_Sub ops)"

definition ids_from :: "64 word \<Rightarrow> nat \<Rightarrow> string list" where
  "ids_from g n = map (\<lambda>k. Itoa (sint (g + of_nat k))) [0..<n]"

text \<open>Two states of an engine with the same counter and the same identifiers assigned.\<close>

definition same_ids :: "SubscriptionClient \<Rightarrow> SubscriptionClient \<Rightarrow> bool" where
  "same_ids st st1 \<longleftrightarrow> subIdGen st1 = subIdGen st \<and> assigned st1 = assigned st"

section \<open>Example inputs\<close>

text \<open>
  Concrete libraries, clients, requests and engines, at which the theorems below are
  instantiated.  The library \<open>lib0\<close> never fails; it decodes the body \<open>E\<close> to an
  envelope with two errors, the body \<open>OK\<close> to one with none and the body
  \<open>null\<close> to the nil envelope, and refuses any other.  The two clients answer
  every request with status 200 and the given body, one on the JSON path and one on
  the multipart path.
\<close>

definition lib0 :: "nat lib" where
  "lib0 =
     \<lparr>json_body = (\<lambda>query vs. Inr query),
      json_map = (\<lambda>m. Inr ''{}''),
      json_raw = (\<lambda>p. p),
      NewRequest_err = (\<lambda>url. None),
      WriteField_err = (\<lambda>name. None),
      CreatePart_err = (\<lambda>name. None),
      writer_Close_err = None,
      FormDataContentType = ''multipart/form-data; boundary=b'',
      form_bytes = (\<lambda>ps. ''form''),
      json_decode = (\<lambda>body.
        if body = ''E''
        then Inr (Some \<lparr>Errors = [\<lparr>Message = ''boom''\<rparr>, \<lparr>Message = ''later''\<rparr>]\<rparr>)
        else if body = ''OK'' then Inr (Some \<lparr>Errors = []\<rparr>)
        else if body = ''null'' then Inr None
        else Inl (Other ''invalid character''))\<rparr>"

definition json_client :: "string \<Rightarrow> Client" where
  "json_client body =
     \<lparr>endpoint = ''http://host/graphql'',
      httpClient = (\<lambda>r. Inr \<lparr>StatusCode = 200, ResBody = Inr body\<rparr>),
      useMultipartForm = False, closeReq = False, buildHeaderFunc = None\<rparr>"

definition form_client :: "string \<Rightarrow> Client" where
  "form_client body = (json_client body)\<lparr>useMultipartForm := True\<rparr>"

definition plain_request :: "nat Request" where
  "plain_request = Var (NewRequest ''query'') ''b'' 7"

definition file_request :: "nat Request" where
  "file_request = Request_File (NewRequest ''mutation'') ''file'' ''a.txt'' (Inr ''abc'') []"

text \<open>
  A connection that is open, with what it will deliver and how its writes will end;
  the engine as a successful handshake returns it on a connection; the same engine
  with one subscription, of identifier \<open>0\<close> and channel \<open>0\<close>; a frame with a
  type, an identifier and an empty object as payload; a read error that is no end of
  stream.
\<close>

definition conn_with :: "read_result list \<Rightarrow> error option list \<Rightarrow> conn" where
  "conn_with rs ws = \<lparr>inbox = rs, wres = ws, wlog = [], cres = None, closed = False\<rparr>"

definition engine_on :: "conn \<Rightarrow> SubscriptionClient" where
  "engine_on c = newSubscriptionClient\<lparr>subWebsocket := Some c, running := True\<rparr>"

definition engine_one :: "conn \<Rightarrow> SubscriptionClient" where
  "engine_one c = (engine_on c)\<lparr>subs := [(''0'', 0)], subIdGen := 1, nchans := 1\<rparr>"

definition frame_of :: "string \<Rightarrow> string \<Rightarrow> frame" where
  "frame_of t i = \<lparr>payload = Val ''{}'', ident = Val i, type = Val t\<rparr>"

definition reset_error :: error where
  "reset_error = Other ''read: connection reset by peer''"

text \<open>
  A run: three subscriptions, between them a turn of the loop that completes the
  first one (the frame carries the text of \<^verbatim>\<open>gql_complete\<close>) and an
  \<^verbatim>\<open>Unsubscribe\<close> of the second one.
\<close>

definition example_ops :: "nat op list" where
  "example_ops = [Sub plain_request, Turn, Sub plain_request, Unsub 1, Sub plain_request]"

definition example_engine :: SubscriptionClient where
  "example_engine = engine_on (conn_with [Frame (frame_of ''GQL_COMPLETE'' ''0'')] [])"

section \<open>Properties of requests and of the stateless client\<close>

lemma runWithJSON_reaches:
  assumes "Encode L (q req) (vars req) = Inr body" and "NewRequest_err L (endpoint c) = None"
  shows "\<exists>r. runWithJSON L c req = do_and_decode L c r"
  using assms by (auto simp: runWithJSON_def Let_def)

lemma runWithPostFields_reaches:
  assumes "write_form L req = Inr ps" and "NewRequest_err L (endpoint c) = None"
  shows "\<exists>r. runWithPostFields L c req = do_and_decode L c r"
  using assms by (auto simp: runWithPostFields_def Let_def)

text \<open>
  When the request can be written (its body encodes on the JSON path, its form is
  written on the multipart path, and \<^verbatim>\<open>http.NewRequest\<close> accepts the endpoint),
  a call of \<^verbatim>\<open>Run\<close> with a context that is not done ends in the common text.
\<close>

lemma Run_reaches:
  assumes "useMultipartForm c \<or> files req = []"
    and "if useMultipartForm c then write_form L req = Inr ps
         else Encode L (q req) (vars req) = Inr body"
    and "NewRequest_err L (endpoint c) = None"
  shows "\<exists>r. Run L c None req = do_and_decode L c r"
proof (cases "useMultipartForm c")
  case True
  with assms runWithPostFields_reaches [of L req ps c] show ?thesis
    by (simp add: Run_def)
next
  case False
  with assms runWithJSON_reaches [of L req body c] show ?thesis
    by (simp add: Run_def)
qed

text \<open>
  What C8 asks holds on both paths for every envelope that is not nil: when the
  HTTP client answers, the body is read and the decoder fills an envelope,
  \<^verbatim>\<open>Run\<close> sends one request and returns the first error of the envelope's list,
  or nil when the list is empty.
\<close>

lemma Run_returns_first_error:
  assumes "useMultipartForm c \<or> files req = []"
    and "if useMultipartForm c then write_form L req = Inr ps
         else Encode L (q req) (vars req) = Inr body"
    and "NewRequest_err L (endpoint c) = None"
    and "\<forall>r. httpClient c r = Inr res" and "ResBody res = Inr buf"
    and "json_decode L buf = Inr (Some gr)"
  shows "err (Run L c None req) =
           (if Errors gr \<noteq> [] then Some (GraphErr (hd (Errors gr))) else None) \<and>
         \<not> panicked (Run L c None req) \<and> length (sent (Run L c None req)) = 1"
proof -
  obtain r where "Run L c None req = do_and_decode L c r"
    using Run_reaches [OF assms(1-3)] by blast
  with assms(4-6) show ?thesis
    by (simp add: do_and_decode_def hd_conv_nth)
qed

lemma write_form_file_request: "\<exists>ps. write_form lib0 file_request = Inr ps"
  by (simp add: write_form_def createFormFile_def file_request_def Request_File_def
      NewRequest_def lib0_def Let_def)

lemma Run_returns_first_error_examples:
  "err (Run lib0 (json_client ''E'') None plain_request) = Some (GraphErr \<lparr>Message = ''boom''\<rparr>) \<and>
   err (Run lib0 (json_client ''OK'') None plain_request) = None \<and>
   \<not> panicked (Run lib0 (json_client ''OK'') None plain_request) \<and>
   err (Run lib0 (form_client ''E'') None file_request) = Some (GraphErr \<lparr>Message = ''boom''\<rparr>) \<and>
   err (Run lib0 (form_client ''OK'') None file_request) = None \<and>
   \<not> panicked (Run lib0 (form_client ''OK'') None file_request)"
proof -
  obtain ps where ps: "write_form lib0 file_request = Inr ps"
    using write_form_file_request by blast
  have enc: "Encode lib0 (q plain_request) (vars plain_request) = Inr (''query'' @ [CHR 0x0A])"
    by (simp add: Encode_def lib0_def plain_request_def Var_def NewRequest_def)
  have j: "err (Run lib0 (json_client b) None plain_request) =
        (if Errors gr \<noteq> [] then Some (GraphErr (hd (Errors gr))) else None) \<and>
      \<not> panicked (Run lib0 (json_client b) None plain_request)"
    if "json_decode lib0 b = Inr (Some gr)" for b gr
    using Run_returns_first_error
      [of "json_client b" plain_request lib0 ps "''query'' @ [CHR 0x0A]"
          "\<lparr>StatusCode = 200, ResBody = Inr b\<rparr>" b gr] that enc
    by (simp add: json_client_def plain_request_def Var_def NewRequest_def) (simp add: lib0_def)
  have f: "err (Run lib0 (form_client b) None file_request) =
        (if Errors gr \<noteq> [] then Some (GraphErr (hd (Errors gr))) else None) \<and>
      \<not> panicked (Run lib0 (form_client b) None file_request)"
    if "json_decode lib0 b = Inr (Some gr)" for b gr
    using Run_returns_first_error
      [of "form_client b" file_request lib0 ps "[]"
          "\<lparr>StatusCode = 200, ResBody = Inr b\<rparr>" b gr] that ps
    by (simp add: form_client_def json_client_def) (simp add: lib0_def)
  have e: "json_decode lib0 ''E'' =
      Inr (Some \<lparr>Errors = [\<lparr>Message = ''boom''\<rparr>, \<lparr>Message = ''later''\<rparr>]\<rparr>)"
    and ok: "json_decode lib0 ''OK'' = Inr (Some \<lparr>Errors = []\<rparr>)"
    by (simp_all add: lib0_def)
  show ?thesis
    using j [OF e] j [OF ok] f [OF e] f [OF ok] by simp
qed

text \<open>
  C8 fails on the code.  When the body of the response is the JSON text
  \<^verbatim>\<open>null\<close>, the decoding succeeds and leaves no envelope, so there is no error
  to return: \<^verbatim>\<open>Run\<close> does not return success, it panics at
  \<^verbatim>\<open>len(gr.Errors)\<close>, on the JSON path and on the multipart path alike.
\<close>

theorem Run_null_body_panics:
  assumes "useMultipartForm c \<or> files req = []"
    and "if useMultipartForm c then write_form L req = Inr ps
         else Encode L (q req) (vars req) = Inr body"
    and "NewRequest_err L (endpoint c) = None"
    and "\<forall>r. httpClient c r = Inr res" and "ResBody res = Inr buf"
    and "json_decode L buf = Inr None"
  shows "panicked (Run L c None req) \<and> err (Run L c None req) = None"
proof -
  obtain r where "Run L c None req = do_and_decode L c r"
    using Run_reaches [OF assms(1-3)] by blast
  with assms(4-6) show ?thesis
    by (simp add: do_and_decode_def)
qed

theorem Run_null_body_panics_witness:
  "json_decode lib0 ''null'' = Inr None \<and>
   panicked (Run lib0 (json_client ''null'') None plain_request) \<and>
   panicked (Run lib0 (form_client ''null'') None file_request)"
proof -
  obtain ps where ps: "write_form lib0 file_request = Inr ps"
    using write_form_file_request by blast
  have enc: "Encode lib0 (q plain_request) (vars plain_request) = Inr (''query'' @ [CHR 0x0A])"
    by (simp add: Encode_def lib0_def plain_request_def Var_def NewRequest_def)
  have n: "json_decode lib0 ''null'' = Inr None"
    by (simp add: lib0_def)
  have "panicked (Run lib0 (json_client ''null'') None plain_request)"
    using Run_null_body_panics
      [of "json_client ''null''" plain_request lib0 ps "''query'' @ [CHR 0x0A]"
          "\<lparr>StatusCode = 200, ResBody = Inr ''null''\<rparr>" "''null''"] n enc
    by (simp add: json_client_def plain_request_def Var_def NewRequest_def) (simp add: lib0_def)
  moreover have "panicked (Run lib0 (form_client ''null'') None file_request)"
    using Run_null_body_panics
      [of "form_client ''null''" file_request lib0 ps "[]"
          "\<lparr>StatusCode = 200, ResBody = Inr ''null''\<rparr>" "''null''"] n ps
    by (simp add: form_client_def json_client_def) (simp add: lib0_def)
  ultimately show ?thesis
    using n by simp
qed

text \<open>
  C9, as the claim states it, fails when the context is done already: \<^verbatim>\<open>Run\<close>
  looks at the context first and returns its error.
\<close>

theorem Run_files_done_context:
  "length (files file_request) > 0 \<and> \<not> useMultipartForm (json_client ''OK'') \<and>
   err (Run lib0 (json_client ''OK'') (Some Canceled) file_request) = Some Canceled \<and>
   err (Run lib0 (json_client ''OK'') (Some Canceled) file_request) \<noteq>
     Some (New ''cannot send files with PostFields option'')"
  by (simp add: Run_def failed_def file_request_def Request_File_def NewRequest_def
      json_client_def)

text \<open>
  C9, amended.  For a request with at least one file and a client without the
  multipart option, \<^verbatim>\<open>Run\<close> hands no request to the HTTP client, and it returns
  the error \<^verbatim>\<open>cannot send files with PostFields option\<close> when the context is not
  done, and the context's error when it is.
\<close>

theorem Run_files_without_multipart:
  "length (files req) > 0 \<Longrightarrow> \<not> useMultipartForm c \<Longrightarrow>
   err (Run L c ctx req) =
     Some (case ctx of None \<Rightarrow> New ''cannot send files with PostFields option'' | Some e \<Rightarrow> e)
   \<and> sent (Run L c ctx req) = [] \<and> \<not> panicked (Run L c ctx req)"
  by (simp add: Run_def failed_def split: option.splits)

theorem Run_files_without_multipart_witness:
  "length (files file_request) > 0 \<and> \<not> useMultipartForm (json_client ''OK'') \<and>
   err (Run lib0 (json_client ''OK'') None file_request) =
     Some (New ''cannot send files with PostFields option'') \<and>
   sent (Run lib0 (json_client ''OK'') None file_request) = [] \<and>
   \<not> panicked (Run lib0 (json_client ''OK'') None file_request)"
proof -
  have f: "length (files file_request) > 0"
    by (simp add: file_request_def Request_File_def NewRequest_def)
  have m: "\<not> useMultipartForm (json_client ''OK'')"
    by (simp add: json_client_def)
  show ?thesis
    using Run_files_without_multipart [OF f m, of lib0 None] f m by simp
qed

text \<open>
  C10.  After \<^verbatim>\<open>Var(key, value)\<close>, \<^verbatim>\<open>Vars()\<close> is a map (not nil, also when
  the request had no variables before) that binds the key to the value and every
  other key as before.
\<close>

theorem Var_then_Vars:
  "\<exists>m. Vars (Var req key val) = Some m \<and> m key = Some val \<and>
       (\<forall>k. k \<noteq> key \<longrightarrow> m k = (case Vars req of None \<Rightarrow> None | Some m0 \<Rightarrow> m0 k))"
  by (cases "vars req") (simp_all add: Var_def Vars_def)

theorem Var_then_Vars_witness:
  "Vars (NewRequest ''query'' :: nat Request) = None \<and>
   (\<exists>m. Vars (Var plain_request ''a'' 1) = Some m \<and> m ''a'' = Some 1 \<and> m ''b'' = Some 7 \<and>
        m ''c'' = None)"
  using Var_then_Vars [of plain_request "''a''" 1]
  by (auto simp: Var_def Vars_def NewRequest_def plain_request_def)

section \<open>Properties of the dispatch loop\<close>

lemma iteration_frame:
  "subWebsocket st = Some c \<Longrightarrow> \<not> closed c \<Longrightarrow> inbox c = Frame f # rest \<Longrightarrow>
   iteration st =
     (case dispatch (with_conn st (c\<lparr>inbox := rest\<rparr>)) (decode_into zero_msg f) of
        None \<Rightarrow> Panics | Some st1 \<Rightarrow> Next st1)"
  by (simp add: iteration_def ReadJSON_def)

lemma dispatch_unknown:
  "Type msg = gql_data \<or> Type msg = gql_error \<or> Type msg = gql_complete \<Longrightarrow>
   Id msg = Some i \<Longrightarrow> map_of (subs st) i = None \<Longrightarrow> dispatch st msg = None"
  by (auto simp: dispatch_def)

text \<open>
  C1 fails on the code.  When the loop reads a frame whose type is one of the
  constants \<^verbatim>\<open>gql_data\<close>, \<^verbatim>\<open>gql_error\<close>, \<^verbatim>\<open>gql_complete\<close> and whose
  identifier is not in the registry, the turn panics, and so does \<^verbatim>\<open>subWork\<close>:
  the frame is not dropped and the loop does not go on.
\<close>

theorem unknown_subscriber_panics:
  assumes "subWebsocket st = Some c" and "\<not> closed c" and "inbox c = Frame f # rest"
    and "type f = Val t" and "t = gql_data \<or> t = gql_error \<or> t = gql_complete"
    and "ident f = Val i" and "map_of (subs st) i = None"
  shows "iteration st = Panics \<and> subWork st = Panic"
proof -
  have "dispatch (with_conn st (c\<lparr>inbox := rest\<rparr>)) (decode_into zero_msg f) = None"
    using assms by (intro dispatch_unknown [where i = i]) (auto simp: decode_into_def with_conn_def)
  then have "iteration st = Panics"
    using assms by (simp add: iteration_frame)
  then show ?thesis
    by (simp add: subWork.simps)
qed

theorem unknown_subscriber_panics_witness:
  "map_of (subs (engine_on (conn_with [Frame (frame_of ''data'' ''7''), ReadErr EOF] []))) ''7'' = None \<and>
   subWork (engine_on (conn_with [Frame (frame_of ''data'' ''7''), ReadErr EOF] [])) = Panic"
  using unknown_subscriber_panics
    [of "engine_on (conn_with [Frame (frame_of ''data'' ''7''), ReadErr EOF] [])"
        "conn_with [Frame (frame_of ''data'' ''7''), ReadErr EOF] []"
        "frame_of ''data'' ''7''" "[ReadErr EOF]" "''data''" "''7''"]
  by (simp add: engine_on_def conn_with_def frame_of_def newSubscriptionClient_def gql_data_def)

text \<open>
  C2 fails on the code.  On a read error that is neither of the two end-of-stream
  values and whose text does not end in \<^verbatim>\<open>unexpected EOF\<close>, the turn reaches
  \<^verbatim>\<open>log.Fatalf\<close> and \<^verbatim>\<open>subWork\<close> ends the process: nothing is reported to the
  engine and no channel of the registry is closed.
\<close>

theorem other_read_error_exits_process:
  assumes "subWebsocket st = Some c" and "\<not> closed c" and "inbox c = ReadErr e # rest"
    and "e \<noteq> EOF" and "e \<noteq> ErrUnexpectedEOF"
    and "\<not> suffix ''unexpected EOF'' (Error_text e)"
  shows "iteration st = Fatal \<and> subWork st = Exit"
proof -
  have "iteration st = Fatal"
    using assms by (simp add: iteration_def ReadJSON_def)
  then show ?thesis
    by (simp add: subWork.simps)
qed

theorem other_read_error_exits_process_witness:
  "map_of (subs (engine_one (conn_with [ReadErr reset_error] []))) ''0'' = Some 0 \<and>
   subWork (engine_one (conn_with [ReadErr reset_error] [])) = Exit"
  using other_read_error_exits_process
    [of "engine_one (conn_with [ReadErr reset_error] [])"
        "conn_with [ReadErr reset_error] []" reset_error "[]"]
  by (simp add: engine_one_def engine_on_def conn_with_def reset_error_def suffix_to_prefix)

text \<open>
  What the loop does on the two end-of-stream values, for comparison: it leaves by
  \<^verbatim>\<open>return\<close>, and the deferred calls close the channels of the registry.
\<close>

lemma end_of_stream_closes:
  "subWork (engine_one (conn_with [ReadErr EOF] [])) = Return st1 \<Longrightarrow>
   chclosed (chans st1 0) \<and> \<not> running st1"
  by (auto simp: subWork.simps iteration_def ReadJSON_def engine_one_def engine_on_def
      conn_with_def newSubscriptionClient_def with_conn_def deferred_def chan_close_def)

text \<open>
  C3 fails on the code.  A frame whose type on the wire is \<^verbatim>\<open>complete\<close> matches
  no case of the \<^verbatim>\<open>switch\<close>, because the constant \<^verbatim>\<open>gql_complete\<close> is the text
  \<^verbatim>\<open>GQL_COMPLETE\<close>: the turn only takes the frame off the connection, and the
  registry and every channel stay as they were.
\<close>

theorem complete_frame_is_ignored:
  assumes "subWebsocket st = Some c" and "\<not> closed c" and "inbox c = Frame f # rest"
    and "type f = Val ''complete''"
  shows "iteration st = Next (with_conn st (c\<lparr>inbox := rest\<rparr>)) \<and>
         subs (with_conn st (c\<lparr>inbox := rest\<rparr>)) = subs st \<and>
         chans (with_conn st (c\<lparr>inbox := rest\<rparr>)) = chans st"
proof -
  have "Type (decode_into zero_msg f) = ''complete''"
    using assms by (simp add: decode_into_def)
  then have "dispatch (with_conn st (c\<lparr>inbox := rest\<rparr>)) (decode_into zero_msg f)
      = Some (with_conn st (c\<lparr>inbox := rest\<rparr>))"
    by (simp add: dispatch_def gql_error_def gql_data_def gql_complete_def
        gql_connection_keep_alive_def)
  then show ?thesis
    using assms by (simp add: iteration_frame with_conn_def)
qed

theorem complete_frame_is_ignored_witness:
  "\<exists>st1. iteration (engine_one (conn_with [Frame (frame_of ''complete'' ''0'')] [])) = Next st1 \<and>
         map_of (subs st1) ''0'' = Some 0 \<and> \<not> chclosed (chans st1 0)"
  using complete_frame_is_ignored
    [of "engine_one (conn_with [Frame (frame_of ''complete'' ''0'')] [])"
        "conn_with [Frame (frame_of ''complete'' ''0'')] []"
        "frame_of ''complete'' ''0''" "[]"]
  by (simp add: engine_one_def engine_on_def conn_with_def frame_of_def
      newSubscriptionClient_def with_conn_def)

text \<open>
  The case of the \<^verbatim>\<open>switch\<close> itself does what C3 asks, for a frame whose type is
  the text of the constant.
\<close>

lemma gql_complete_frame_closes:
  assumes "subWebsocket st = Some c" and "\<not> closed c" and "inbox c = Frame f # rest"
    and "type f = Val gql_complete" and "ident f = Val i"
    and "map_of (subs st) i = Some ch" and "\<not> chclosed (chans st ch)"
  shows "\<exists>st1. iteration st = Next st1 \<and> chclosed (chans st1 ch) \<and>
           map_of (subs st1) i = None \<and>
           (\<forall>j. j \<noteq> i \<longrightarrow> map_of (subs st1) j = map_of (subs st) j) \<and>
           (\<forall>ch1. ch1 \<noteq> ch \<longrightarrow> chans st1 ch1 = chans st ch1)"
  using assms
  by (simp add: iteration_frame dispatch_def decode_into_def with_conn_def chan_close_def
      gql_error_def gql_data_def gql_complete_def delete_conv')

section \<open>Properties of the lifecycle API and of the handshake\<close>

lemma Close_engine_success_closed:
  assumes "subWebsocket st = Some c" and "Close_engine st = Return (None, st1)"
  shows "\<exists>c1. subWebsocket st1 = Some c1 \<and> closed c1"
  using assms
  by (auto simp: Close_engine_def with_conn_def conn_Close_def Let_def
      split: prod.splits option.splits outcome.splits if_splits)

lemma Close_engine_on_closed:
  assumes "subWebsocket st = Some c" and "closed c"
  shows "Close_engine st =
     Return (Some ErrClosed,
       with_conn st (c\<lparr>wres := tl (wres c),
         wlog := wlog c @ [(\<lparr>Payload = None, Id = None, Type = gql_connection_terminate\<rparr>,
                            Some ErrClosed)]\<rparr>))"
  using assms by (simp add: Close_engine_def WriteJSON_def Let_def)

lemma Close_engine_nil: "subWebsocket st = None \<Longrightarrow> Close_engine st = Return (None, st)"
  by (simp add: Close_engine_def)

text \<open>
  C4 fails on the code.  \<^verbatim>\<open>Close\<close> never sets \<^verbatim>\<open>subWebsocket\<close> to nil, so
  on an engine with a connection on which \<^verbatim>\<open>Close\<close> has returned nil, the guard
  of line 464 does not hold at the second call: it hands one more
  \<^verbatim>\<open>connection_terminate\<close> frame to \<^verbatim>\<open>WriteJSON\<close>, on the closed connection,
  and returns the error of that write.
\<close>

theorem second_Close_writes_again:
  assumes "subWebsocket st = Some c" and "Close_engine st = Return (None, st1)"
  shows "\<exists>c1 c2 st2. subWebsocket st1 = Some c1 \<and>
           Close_engine st1 = Return (Some ErrClosed, st2) \<and>
           subWebsocket st2 = Some c2 \<and> terminates c2 = terminates c1 + 1"
proof -
  obtain c1 where c1: "subWebsocket st1 = Some c1" "closed c1"
    using Close_engine_success_closed [OF assms] by blast
  show ?thesis
    using c1 by (simp add: Close_engine_on_closed [OF c1] with_conn_def terminates_def)
qed

lemma first_Close:
  "\<exists>st1. Close_engine (engine_on (conn_with [ReadErr EOF] [])) = Return (None, st1)"
  by (simp add: Close_engine_def engine_on_def conn_with_def newSubscriptionClient_def
      WriteJSON_def subWork.simps iteration_def ReadJSON_def with_conn_def deferred_def
      conn_Close_def Let_def)

theorem second_Close_writes_again_witness:
  "\<exists>st1 st2 c1 c2.
     Close_engine (engine_on (conn_with [ReadErr EOF] [])) = Return (None, st1) \<and>
     subWebsocket st1 = Some c1 \<and>
     Close_engine st1 = Return (Some ErrClosed, st2) \<and>
     subWebsocket st2 = Some c2 \<and> terminates c2 = terminates c1 + 1"
proof -
  obtain st1 where f: "Close_engine (engine_on (conn_with [ReadErr EOF] [])) = Return (None, st1)"
    using first_Close by blast
  have c: "subWebsocket (engine_on (conn_with [ReadErr EOF] [])) = Some (conn_with [ReadErr EOF] [])"
    by (simp add: engine_on_def)
  show ?thesis
    using second_Close_writes_again [OF c f] f by blast
qed

text \<open>
  C5 fails on the code.  When the write of the \<^verbatim>\<open>start\<close> frame fails,
  \<^verbatim>\<open>Subscribe\<close> returns the error of the write, and the registry still holds the
  entry that was stored for the new identifier: nothing takes it out again.
\<close>

theorem Subscribe_write_failure_keeps_entry:
  assumes "Encode L (q req) (vars req) = Inr body"
    and "subWebsocket st = Some c" and "\<not> closed c" and "wres c = Some e # ws"
  shows "\<exists>st1. Subscribe L st req = Return (Inl e, st1) \<and>
           subs st1 = AList.update (Itoa (sint (subIdGen st))) (nchans st) (subs st) \<and>
           map_of (subs st1) (Itoa (sint (subIdGen st))) = Some (nchans st)"
  using assms
  by (simp add: Subscribe_def Let_def make_chan_def WriteJSON_def with_conn_def update_conv')

lemma Itoa_0: "Itoa 0 = ''0''"
  by code_simp

theorem Subscribe_write_failure_keeps_entry_witness:
  "subs (engine_on (conn_with [] [Some reset_error])) = [] \<and>
   (\<exists>st1. Subscribe lib0 (engine_on (conn_with [] [Some reset_error])) plain_request =
            Return (Inl reset_error, st1) \<and>
          subs st1 = [(''0'', 0)])"
proof -
  have e: "Encode lib0 (q plain_request) (vars plain_request) = Inr (''query'' @ [CHR 0x0A])"
    by (simp add: Encode_def lib0_def plain_request_def Var_def NewRequest_def)
  have c: "subWebsocket (engine_on (conn_with [] [Some reset_error])) =
      Some (conn_with [] [Some reset_error])"
    by (simp add: engine_on_def)
  have o: "\<not> closed (conn_with [] [Some reset_error])"
    by (simp add: conn_with_def)
  have w: "wres (conn_with [] [Some reset_error]) = Some reset_error # []"
    by (simp add: conn_with_def)
  show ?thesis
    using Subscribe_write_failure_keeps_entry [OF e c o w]
    by (auto simp: engine_on_def newSubscriptionClient_def Itoa_0)
qed

text \<open>
  C6 fails on the code.  When the write of the \<^verbatim>\<open>connection_init\<close> frame
  fails, or the write succeeds and the read of the reply fails,
  \<^verbatim>\<open>SubscriptionClient\<close> returns the error and leaves the connection open.
\<close>

theorem handshake_io_failure_leaves_open:
  assumes "\<not> closed c0"
    and "wres c0 = Some e # ws \<or>
         ((wres c0 = [] \<or> wres c0 = None # ws) \<and> inbox c0 = ReadErr e # rest)"
  shows "\<exists>c1. Client_SubscriptionClient L (\<lambda>url h. (Some c0, None)) c hdr =
           (Return (Inl e), Some c1) \<and> \<not> closed c1"
  using assms
  by (auto simp: Client_SubscriptionClient_def Let_def WriteJSON_def ReadJSON_def)

theorem handshake_io_failure_leaves_open_witness:
  "(\<exists>c1. Client_SubscriptionClient lib0 (\<lambda>url h. (Some (conn_with [] [Some reset_error]), None))
            (json_client ''OK'') [] = (Return (Inl reset_error), Some c1) \<and> \<not> closed c1) \<and>
   (\<exists>c1. Client_SubscriptionClient lib0 (\<lambda>url h. (Some (conn_with [ReadErr reset_error] []), None))
            (json_client ''OK'') [] = (Return (Inl reset_error), Some c1) \<and> \<not> closed c1)"
  using handshake_io_failure_leaves_open
      [of "conn_with [] [Some reset_error]" reset_error "[]" "[]" lib0 "json_client ''OK''" "[]"]
    handshake_io_failure_leaves_open
      [of "conn_with [ReadErr reset_error] []" reset_error "[]" "[]" lib0 "json_client ''OK''" "[]"]
  by (simp add: conn_with_def)

text \<open>
  The other failures of the handshake, for comparison.  On a reply that is not the
  acknowledgement the connection is closed before the error is returned (unless the
  reply is a \<^verbatim>\<open>connection_error\<close> whose payload is \<^verbatim>\<open>null\<close>, where the call
  panics after closing); on a failed dial the connection is closed when there is one.
\<close>

lemma handshake_rejected_closes:
  assumes "\<not> closed c0" and "wres c0 = [] \<or> wres c0 = None # ws"
    and "inbox c0 = Frame f # rest"
    and "type f = Val t" and "t \<noteq> gql_connection_ack" and "payload f \<noteq> Null"
  shows "\<exists>e c1. Client_SubscriptionClient L (\<lambda>url h. (Some c0, None)) c hdr =
           (Return (Inl e), Some c1) \<and> closed c1"
  using assms
  by (auto simp: Client_SubscriptionClient_def Let_def WriteJSON_def ReadJSON_def
      decode_into_def conn_Close_def split: member.splits)

lemma handshake_dial_failure_closes:
  "\<exists>c1. Client_SubscriptionClient L (\<lambda>url h. (Some c0, Some e)) c hdr =
          (Return (Inl e), Some c1) \<and> closed c1"
  by (simp add: Client_SubscriptionClient_def conn_Close_def)

section \<open>Properties of the identifiers\<close>

text \<open>The decimal text of a number determines the number.\<close>

lemma digit_inj: "a < 10 \<Longrightarrow> b < 10 \<Longrightarrow> digit a = digit b \<Longrightarrow> a = b"
proof -
  assume a: "a < 10" and b: "b < 10" and e: "digit a = digit b"
  from e have "(of_char (char_of (48 + a)) :: nat) = of_char (char_of (48 + b))"
    by (simp add: digit_def)
  with a b show "a = b"
    by (simp add: of_char_of)
qed

lemma digit_not_minus: "d < 10 \<Longrightarrow> digit d \<noteq> CHR ''-''"
proof
  assume d: "d < 10" and e: "digit d = CHR ''-''"
  from e have "(of_char (char_of (48 + d)) :: nat) = of_char (CHR ''-'')"
    by (simp add: digit_def)
  with d show False
    by (simp add: of_char_of)
qed

lemma digits_not_Nil: "digits n \<noteq> []"
  by (subst digits.simps) simp

lemma digits_no_minus: "CHR ''-'' \<notin> set (digits n)"
proof (induction n rule: digits.induct)
  case (1 n)
  show ?case
  proof (cases "n < 10")
    case True
    then show ?thesis
      using digit_not_minus [of n] by (subst digits.simps) auto
  next
    case False
    then show ?thesis
      using 1 digit_not_minus [of "n mod 10"] by (subst digits.simps) auto
  qed
qed

lemma digits_inj: "digits n = digits m \<Longrightarrow> n = m"
proof (induction n arbitrary: m rule: digits.induct)
  case (1 n)
  show ?case
  proof (cases "n < 10")
    case n: True
    show ?thesis
    proof (cases "m < 10")
      case True
      with n 1(2) show ?thesis
        by (simp add: digits.simps [of n] digits.simps [of m] digit_inj)
    next
      case False
      with n 1(2) digits_not_Nil [of "m div 10"] show ?thesis
        by (simp add: digits.simps [of n] digits.simps [of m])
    qed
  next
    case n: False
    show ?thesis
    proof (cases "m < 10")
      case True
      with n 1(2) digits_not_Nil [of "n div 10"] show ?thesis
        by (simp add: digits.simps [of n] digits.simps [of m])
    next
      case False
      with n 1(2) have d: "digits (n div 10) = digits (m div 10)"
        and l: "digit (n mod 10) = digit (m mod 10)"
        by (simp_all add: digits.simps [of n] digits.simps [of m])
      from 1(1) [OF n d] have "n div 10 = m div 10" .
      moreover from l have "n mod 10 = m mod 10"
        by (intro digit_inj) simp_all
      ultimately show ?thesis
        by (metis div_mult_mod_eq)
    qed
  qed
qed

lemma Itoa_inj: "Itoa i = Itoa j \<Longrightarrow> i = j"
proof -
  assume e: "Itoa i = Itoa j"
  have minus: "CHR ''-'' # xs \<noteq> digits n" for xs n
    using digits_no_minus [of n] by (metis list.set_intros(1))
  show "i = j"
  proof (cases "i < 0")
    case i: True
    show ?thesis
    proof (cases "j < 0")
      case True
      with i e have "nat (- i) = nat (- j)"
        by (simp add: Itoa_def digits_inj)
      with i True show ?thesis by simp
    next
      case False
      with i e minus show ?thesis
        by (simp add: Itoa_def)
    qed
  next
    case i: False
    show ?thesis
    proof (cases "j < 0")
      case True
      with i e minus [of "digits (nat (- j))" "nat i"] show ?thesis
        by (simp add: Itoa_def)
    next
      case False
      with i e have "nat i = nat j"
        by (simp add: Itoa_def digits_inj)
      with i False show ?thesis by simp
    qed
  qed
qed

lemma sint_inj: "sint (a :: 64 word) = sint b \<Longrightarrow> a = b"
proof -
  assume "sint a = sint b"
  then have "(of_int (sint a) :: 64 word) = of_int (sint b)" by simp
  then show "a = b" by simp
qed

lemma id_inj: "Itoa (sint (a :: 64 word)) = Itoa (sint b) \<Longrightarrow> a = b"
  by (blast dest: Itoa_inj sint_inj)

lemma of_nat_inj64: "i < 2 ^ 64 \<Longrightarrow> j < 2 ^ 64 \<Longrightarrow> (of_nat i :: 64 word) = of_nat j \<Longrightarrow> i = j"
  by (simp add: word_of_nat_eq_iff take_bit_nat_eq_self)

lemma sint_small: "k < 2 ^ 63 \<Longrightarrow> sint (of_nat k :: 64 word) = int k"
proof -
  assume k: "k < 2 ^ 63"
  have "sint (of_nat k :: 64 word) = sint (word_of_int (int k) :: 64 word)" by simp
  also have "\<dots> = signed_take_bit 63 (int k)" by (simp only: sint_sbintrunc') simp
  also have "\<dots> = int k" using k by (simp add: signed_take_bit_int_eq_self)
  finally show ?thesis .
qed

lemma wrap64: "(of_nat (2 ^ 64) :: 64 word) = 0"
  by simp

text \<open>
  Only \<^verbatim>\<open>Subscribe\<close> moves the counter or writes a \<^verbatim>\<open>start\<close> frame: every other
  step of a run keeps both.
\<close>

lemma same_ids_refl: "same_ids st st"
  by (simp add: same_ids_def)

lemma same_ids_trans: "same_ids a b \<Longrightarrow> same_ids b c \<Longrightarrow> same_ids a c"
  by (simp add: same_ids_def)

lemma dispatch_same: "dispatch st msg = Some st1 \<Longrightarrow> same_ids st st1"
  by (auto simp: dispatch_def chan_send_def chan_close_def same_ids_def assigned_def
      split: if_splits option.splits)

lemma iteration_same:
  "iteration st = Next st1 \<or> iteration st = Leave st1 \<Longrightarrow> same_ids st st1"
  by (auto simp: iteration_def ReadJSON_def same_ids_def assigned_def with_conn_def
      split: option.splits if_splits list.splits read_result.splits prod.splits
      dest!: dispatch_same)

lemma close_all_same: "close_all st xs = Some st1 \<Longrightarrow> same_ids st st1"
proof (induction xs arbitrary: st)
  case Nil
  then show ?case by (simp add: same_ids_refl)
next
  case (Cons x xs)
  obtain i ch where x: "x = (i, ch)" by (cases x)
  from Cons.prems x obtain st2 where c: "chan_close st ch = Some st2"
    and r: "close_all st2 xs = Some st1"
    by (auto split: option.splits)
  from c have "same_ids st st2"
    by (auto simp: chan_close_def same_ids_def assigned_def split: if_splits)
  with Cons.IH [OF r] show ?case
    by (blast intro: same_ids_trans)
qed

lemma deferred_same: "deferred st = Return st1 \<Longrightarrow> same_ids st st1"
  by (auto simp: deferred_def same_ids_def assigned_def split: option.splits
      dest!: close_all_same)

lemma subWork_same: "subWork st = Return st1 \<Longrightarrow> same_ids st st1"
proof (induction st rule: subWork.induct)
  case (1 st)
  show ?case
  proof (cases "iteration st")
    case (Next st2)
    with 1 have "same_ids st2 st1"
      by (simp add: subWork.simps [of st])
    moreover from Next have "same_ids st st2"
      by (simp add: iteration_same)
    ultimately show ?thesis
      by (blast intro: same_ids_trans)
  next
    case (Leave st2)
    with 1(2) have "same_ids st2 st1"
      by (simp add: subWork.simps [of st] deferred_same)
    moreover from Leave have "same_ids st st2"
      by (simp add: iteration_same)
    ultimately show ?thesis
      by (blast intro: same_ids_trans)
  qed (use 1(2) in \<open>simp_all add: subWork.simps [of st]\<close>)
qed

lemma turn_step_same: "turn_step st = Return st1 \<Longrightarrow> same_ids st st1"
  by (auto simp: turn_step_def same_ids_refl split: if_splits turn.splits
      intro: iteration_same deferred_same same_ids_trans)


lemma wlog_other_frame:
  "Type msg \<noteq> gql_start \<Longrightarrow>
   List.map_filter start_id (wlog (snd (WriteJSON c msg))) = List.map_filter start_id (wlog c)"
  by (simp add: WriteJSON_def Let_def map_filter_def start_id_def)

lemma Unsubscribe_same: "Unsubscribe st ch = Return st1 \<Longrightarrow> same_ids st st1"
  by (auto simp: Unsubscribe_def same_ids_def assigned_def with_conn_def wlog_other_frame
      gql_stop_def gql_start_def split: option.splits prod.splits)

lemma Close_engine_same: "Close_engine st = Return (r, st1) \<Longrightarrow> same_ids st st1"
proof (cases "subWebsocket st")
  case None
  then show "Close_engine st = Return (r, st1) \<Longrightarrow> same_ids st st1"
    by (simp add: Close_engine_def same_ids_refl)
next
  case c: (Some c)
  assume ret: "Close_engine st = Return (r, st1)"
  let ?m = "\<lparr>Payload = None, Id = None, Type = gql_connection_terminate\<rparr>"
  obtain r1 c1 where w: "WriteJSON c ?m = (r1, c1)"
    by (cases "WriteJSON c ?m")
  have a: "same_ids st (with_conn st c1)"
    using c wlog_other_frame [of ?m c] w
    by (simp add: same_ids_def assigned_def with_conn_def gql_connection_terminate_def
        gql_start_def)
  show "same_ids st st1"
  proof (cases r1)
    case (Some e)
    with ret c w have "st1 = with_conn st c1"
      by (simp add: Close_engine_def)
    with a show ?thesis by simp
  next
    case None
    let ?w = "if running st then subWork (with_conn st c1) else Return (with_conn st c1)"
    from ret c w None obtain st2 where st2: "?w = Return st2"
      by (cases ?w) (simp_all add: Close_engine_def)
    then have b: "same_ids (with_conn st c1) st2"
      by (auto simp: same_ids_refl subWork_same split: if_splits)
    from ret c w None st2 obtain c2 where c2: "subWebsocket st2 = Some c2"
      by (cases "subWebsocket st2") (simp_all add: Close_engine_def)
    obtain r3 c3 where cl: "conn_Close c2 = (r3, c3)"
      by (cases "conn_Close c2")
    from ret c w None st2 c2 cl have "st1 = with_conn st2 c3"
      by (cases r3) (simp_all add: Close_engine_def)
    moreover from cl have "wlog c3 = wlog c2"
      by (auto simp: conn_Close_def split: if_splits)
    ultimately have "same_ids st2 st1"
      using c2 by (simp add: same_ids_def assigned_def with_conn_def)
    with a b show ?thesis
      by (blast intro: same_ids_trans)
  qed
qed

lemma Subscribe_ids:
  assumes "Subscribe L st req = Return (r, st1)"
  shows "same_ids st st1 \<or>
         (subIdGen st1 = subIdGen st + 1 \<and>
          assigned st1 = assigned st @ [Itoa (sint (subIdGen st))])"
  using assms
  by (auto simp: Subscribe_def Let_def make_chan_def same_ids_refl assigned_def with_conn_def
       WriteJSON_def map_filter_def start_id_def
      split: sum.splits option.splits prod.splits)

lemma exec_ids:
  assumes "exec L st x = Return st1"
  shows "same_ids st st1 \<or>
         (is_Sub x \<and> subIdGen st1 = subIdGen st + 1 \<and>
          assigned st1 = assigned st @ [Itoa (sint (subIdGen st))])"
proof (cases x)
  case (Sub req)
  with assms obtain r where "Subscribe L st req = Return (r, st1)"
    by (auto simp: discard_def split: outcome.splits)
  with Sub show ?thesis
    using Subscribe_ids by fastforce
next
  case (Unsub ch)
  with assms show ?thesis by (simp add: Unsubscribe_same)
next
  case Turn
  with assms show ?thesis by (simp add: turn_step_same)
next
  case CloseOp
  with assms obtain r where "Close_engine st = Return (r, st1)"
    by (auto simp: discard_def split: outcome.splits)
  then show ?thesis by (simp add: Close_engine_same)
qed

lemma ids_from_0: "ids_from g 0 = []"
  by (simp add: ids_from_def)

lemma ids_from_Suc: "ids_from g (Suc n) = Itoa (sint g) # ids_from (g + 1) n"
proof -
  have "[0..<Suc n] = 0 # map Suc [0..<n]"
    by (simp add: upt_conv_Cons map_Suc_upt del: upt_Suc)
  then show ?thesis
    by (simp add: ids_from_def ac_simps del: upt_Suc)
qed

lemma run_ids:
  "run L st ops = Return st1 \<Longrightarrow>
   \<exists>n. n \<le> subscribes ops \<and>  subIdGen st1 = subIdGen st + of_nat n \<and>
      assigned st1 = assigned st @ ids_from (subIdGen st) n"
proof (induction ops arbitrary: st)
  case Nil
  then show ?case
    by (auto simp: subscribes_def ids_from_0)
next
  case (Cons x xs)
  from Cons.prems obtain st2 where e: "exec L st x = Return st2"
    and r: "run L st2 xs = Return st1"
    by (auto split: outcome.splits)
  from Cons.IH [OF r] obtain n where n: "n \<le> subscribes xs"
    "subIdGen st1 = subIdGen st2 + of_nat n"
    "assigned st1 = assigned st2 @ ids_from (subIdGen st2) n"
    by blast
  from exec_ids [OF e] show ?case
  proof
    assume "same_ids st st2"
    with n show ?thesis
      by (intro exI [of _ n]) (auto simp: same_ids_def subscribes_def)
  next
    assume "is_Sub x \<and> subIdGen st2 = subIdGen st + 1 \<and>
      assigned st2 = assigned st @ [Itoa (sint (subIdGen st))]"
    with n show ?thesis
      by (intro exI [of _ "Suc n"]) (auto simp: subscribes_def ids_from_Suc add.assoc)
  qed
qed

lemma ids_from_distinct: "n \<le> 2 ^ 64 \<Longrightarrow> distinct (ids_from g n)"
proof -
  assume n: "n \<le> 2 ^ 64"
  have "inj_on (\<lambda>k. Itoa (sint (g + of_nat k))) {0..<n}"
  proof (rule inj_onI)
    fix i j
    assume i: "i \<in> {0..<n}" and j: "j \<in> {0..<n}"
      and e: "Itoa (sint (g + of_nat i)) = Itoa (sint (g + of_nat j))"
    from e have "g + of_nat i = g + of_nat j"
      by (rule id_inj)
    then have "(of_nat i :: 64 word) = of_nat j"
      by simp
    moreover from i j n have "i < 2 ^ 64" "j < 2 ^ 64"
      by simp_all
    ultimately show "i = j"
      by (rule of_nat_inj64 [rotated 2])
  qed
  then show ?thesis
    by (simp add: ids_from_def distinct_map)
qed

lemma ids_from_small: "n \<le> 2 ^ 63 \<Longrightarrow> ids_from 0 n = map (\<lambda>k. Itoa (int k)) [0..<n]"
  by (simp add: ids_from_def sint_small)

lemma ids_from_length: "length (ids_from g n) = n"
  by (simp add: ids_from_def)

lemma Subscribe_returns:
  assumes "Encode L (q req) (vars req) = Inr body" and "subWebsocket st = Some c"
  shows "\<exists>r st1 c1. Subscribe L st req = Return (r, st1) \<and> subWebsocket st1 = Some c1 \<and>
           subIdGen st1 = subIdGen st + 1 \<and>
           assigned st1 = assigned st @ [Itoa (sint (subIdGen st))]"
  using assms
  by (auto simp: Subscribe_def Let_def make_chan_def assigned_def with_conn_def
       WriteJSON_def map_filter_def start_id_def split: prod.splits option.splits)

lemma run_replicate_Sub:
  assumes "Encode L (q req) (vars req) = Inr body"
  shows "subWebsocket st = Some c \<Longrightarrow>
         \<exists>st1. run L st (replicate n (Sub req)) = Return st1 \<and>
           assigned st1 = assigned st @ ids_from (subIdGen st) n"
proof (induction n arbitrary: st c)
  case 0
  then show ?case by (simp add: ids_from_0)
next
  case (Suc n)
  from Subscribe_returns [OF assms Suc.prems] obtain r st2 c2 where
    s: "Subscribe L st req = Return (r, st2)" and c2: "subWebsocket st2 = Some c2"
    and g: "subIdGen st2 = subIdGen st + 1"
    and a: "assigned st2 = assigned st @ [Itoa (sint (subIdGen st))]"
    by blast
  from Suc.IH [OF c2] obtain st1 where "run L st2 (replicate n (Sub req)) = Return st1"
    and "assigned st1 = assigned st2 @ ids_from (subIdGen st2) n"
    by blast
  with s g a show ?case
    by (simp add: discard_def ids_from_Suc)
qed

lemma ids_from_wrap: "\<not> distinct (ids_from 0 (2 ^ 64 + 1))"
proof -
  let ?f = "\<lambda>k. Itoa (sint ((0 :: 64 word) + of_nat k))"
  have "?f 0 = ?f (2 ^ 64)"
    by simp
  moreover have "(0::nat) \<in> {0..<2 ^ 64 + 1}" "(2 ^ 64 :: nat) \<in> {0..<2 ^ 64 + 1}"
    by simp_all
  ultimately have "\<not> inj_on ?f {0..<2 ^ 64 + 1}"
    by (metis inj_on_def zero_neq_numeral power_eq_0_iff)
  then show ?thesis
    by (simp add: ids_from_def distinct_map)
qed

text \<open>
  C7, as the claim states it, fails on the code: the counter is a Go \<^verbatim>\<open>int\<close>,
  which wraps around, so the call number \<open>2 ^ 64 + 1\<close> on one engine is given the
  identifier of the first call again.
\<close>

theorem identifiers_wrap_around:
  "\<exists>st. run lib0 (engine_on (conn_with [] [])) (replicate (2 ^ 64 + 1) (Sub plain_request))
          = Return st \<and> \<not> distinct (assigned st)"
proof -
  have e: "Encode lib0 (q plain_request) (vars plain_request) = Inr (''query'' @ [CHR 0x0A])"
    by (simp add: Encode_def lib0_def plain_request_def Var_def NewRequest_def)
  have c: "subWebsocket (engine_on (conn_with [] [])) = Some (conn_with [] [])"
    by (simp add: engine_on_def)
  have a: "assigned (engine_on (conn_with [] [])) = []"
    by (simp add: assigned_def engine_on_def conn_with_def map_filter_def)
  have g: "subIdGen (engine_on (conn_with [] [])) = 0"
    by (simp add: engine_on_def newSubscriptionClient_def)
  from run_replicate_Sub [OF e c, of "2 ^ 64 + 1"] a g ids_from_wrap show ?thesis
    by auto
qed

text \<open>
  C7, amended.  In every run of an engine that starts with no identifier assigned,
  whatever turns of the loop, completions, \<^verbatim>\<open>Unsubscribe\<close> and \<^verbatim>\<open>Close\<close>
  calls come between the \<^verbatim>\<open>Subscribe\<close> calls: the identifiers assigned are at
  most one for each call of \<^verbatim>\<open>Subscribe\<close>; they are the decimal texts of the
  successive values of the counter, which goes up by one at each; they are distinct
  as long as there are at most \<open>2 ^ 64\<close> of them; and on an engine whose counter
  starts at zero, as after the handshake, they are \<open>0\<close>, \<open>1\<close>, \<open>2\<close> and so on
  in increasing order as long as there are at most \<open>2 ^ 63\<close> of them.
\<close>

theorem identifiers_never_reused:
  assumes "run L st0 ops = Return st" and "assigned st0 = []"
  shows "length (assigned st) \<le> subscribes ops \<and>
         assigned st = ids_from (subIdGen st0) (length (assigned st)) \<and>
         (length (assigned st) \<le> 2 ^ 64 \<longrightarrow> distinct (assigned st)) \<and>
         (subIdGen st0 = 0 \<and> length (assigned st) \<le> 2 ^ 63 \<longrightarrow>
            assigned st = map (\<lambda>k. Itoa (int k)) [0..<length (assigned st)])"
proof -
  from run_ids [OF assms(1)] assms(2) obtain n where n: "n \<le> subscribes ops"
    and a: "assigned st = ids_from (subIdGen st0) n"
    by auto
  from a have l: "length (assigned st) = n"
    by (simp add: ids_from_length)
  show ?thesis
    unfolding l
    using n a ids_from_distinct [of n "subIdGen st0"] ids_from_small [of n]
    by auto
qed

lemma Itoa_1: "Itoa 1 = ''1''"
  by code_simp

lemma Itoa_2: "Itoa 2 = ''2''"
  by code_simp

lemma example_run:
  "\<exists>st. run lib0 example_engine example_ops = Return st \<and>
         assigned st = [''0'', ''1'', ''2''] \<and> map fst (subs st) = [''1'', ''2'']"
  by (simp add: example_ops_def example_engine_def engine_on_def conn_with_def frame_of_def
      newSubscriptionClient_def plain_request_def Var_def NewRequest_def lib0_def
      discard_def Subscribe_def Encode_def make_chan_def WriteJSON_def with_conn_def
      turn_step_def iteration_def ReadJSON_def dispatch_def decode_into_def zero_msg_def
      chan_close_def Unsubscribe_def assigned_def map_filter_def start_id_def
      gql_start_def gql_stop_def gql_error_def gql_data_def gql_complete_def
      Let_def Itoa_0 Itoa_1 Itoa_2)

theorem identifiers_never_reused_witness:
  "assigned example_engine = [] \<and> subIdGen example_engine = 0 \<and>
   (\<exists>st. run lib0 example_engine example_ops = Return st \<and>
      assigned st = [''0'', ''1'', ''2''] \<and> distinct (assigned st) \<and>
      length (assigned st) \<le> subscribes example_ops)"
proof -
  have a: "assigned example_engine = []"
    by (simp add: example_engine_def assigned_def engine_on_def conn_with_def map_filter_def)
  have g: "subIdGen example_engine = 0"
    by (simp add: example_engine_def engine_on_def newSubscriptionClient_def)
  obtain st where r: "run lib0 example_engine example_ops = Return st"
    and i: "assigned st = [''0'', ''1'', ''2'']"
    using example_run by blast
  from identifiers_never_reused [OF r a]
  have d: "length (assigned st) \<le> 2 ^ 64 \<longrightarrow> distinct (assigned st)"
    and l: "length (assigned st) \<le> subscribes example_ops"
    by blast+
  from i have "length (assigned st) \<le> 2 ^ 64"
    by simp
  with d have "distinct (assigned st)"
    by blast
  with a g r i l show ?thesis
    by blast
qed

end
